theory Spec2Isabelle
  imports Main "HOL-Library.Multiset" "HOL-Library.Sublist" "HOL-Library.Char_ord"
    "HOL-Library.List_Lexorder" "HOL-Library.Product_Lexorder"
begin

section \<open>JavaScript values and documents\<close>

text \<open>
  The server (\<^verbatim>\<open>src/unnamed/part_000\<close>) is an Express application over four MongoDB
  collections.  Request bodies, query strings and stored documents are JSON-like objects.
  A value is one of JavaScript's primitives, a \<^verbatim>\<open>Date\<close> (milliseconds), an
  \<^verbatim>\<open>ObjectId\<close>, an array or an object.  Numbers are modelled as integers: the handlers
  only ever test a number for being zero and copy it.
\<close>

type_synonym oid = nat

datatype jsval =
    JUndefined
  | JNull
  | JBool bool
  | JNum int
  | JStr string
  | JDate nat
  | JOid oid
  | JArr "jsval list"
  | JObj "(string \<times> jsval) list"

type_synonym doc = "(string \<times> jsval) list"

text \<open>Property access \<^verbatim>\<open>d.k\<close>: a missing property reads as \<^verbatim>\<open>undefined\<close>.\<close>

definition field :: "doc \<Rightarrow> string \<Rightarrow> jsval" where
  "field d k = (case map_of d k of None \<Rightarrow> JUndefined | Some v \<Rightarrow> v)"

text \<open>JavaScript truthiness, the meaning of \<^verbatim>\<open>!x\<close> in the validation checks.\<close>

fun truthy :: "jsval \<Rightarrow> bool" where
  "truthy JUndefined = False"
| "truthy JNull = False"
| "truthy (JBool b) = b"
| "truthy (JNum n) = (n \<noteq> 0)"
| "truthy (JStr s) = (s \<noteq> [])"
| "truthy (JDate t) = True"
| "truthy (JOid i) = True"
| "truthy (JArr xs) = True"
| "truthy (JObj kvs) = True"

text \<open>
  Strict equality \<^verbatim>\<open>a === b\<close> between a value of the verified token and a value parsed
  from the request: primitives compare by value; two objects or arrays coming from
  different places are never the same reference.
\<close>

fun strict_eq :: "jsval \<Rightarrow> jsval \<Rightarrow> bool" where
  "strict_eq JUndefined JUndefined = True"
| "strict_eq JNull JNull = True"
| "strict_eq (JBool a) (JBool b) = (a = b)"
| "strict_eq (JNum a) (JNum b) = (a = b)"
| "strict_eq (JStr a) (JStr b) = (a = b)"
| "strict_eq _ _ = False"

section \<open>The storage layer\<close>

text \<open>
  A collection is the list of its documents in natural (insertion) order.  Every driver
  call is recorded in \<open>calls\<close>, so that "no database access" and "both steps were
  attempted, in this order" are statements about the state.
\<close>

datatype coll = Parcels | Payments | Users | Riders

datatype dbcall = InsertOne coll | UpdateOne coll | FindOne coll | Find coll

record store =
  parcels :: "doc list"
  payments :: "doc list"
  users :: "doc list"
  riders :: "doc list"
  calls :: "dbcall list"

fun docs :: "coll \<Rightarrow> store \<Rightarrow> doc list" where
  "docs Parcels s = parcels s"
| "docs Payments s = payments s"
| "docs Users s = users s"
| "docs Riders s = riders s"

fun put_docs :: "coll \<Rightarrow> doc list \<Rightarrow> store \<Rightarrow> store" where
  "put_docs Parcels ds s = s\<lparr>parcels := ds\<rparr>"
| "put_docs Payments ds s = s\<lparr>payments := ds\<rparr>"
| "put_docs Users ds s = s\<lparr>users := ds\<rparr>"
| "put_docs Riders ds s = s\<lparr>riders := ds\<rparr>"

definition logged :: "dbcall \<Rightarrow> store \<Rightarrow> store" where
  "logged c s = s\<lparr>calls := calls s @ [c]\<rparr>"

text \<open>
  The client is created without \<^verbatim>\<open>ignoreUndefined\<close>, so the driver writes an
  \<^verbatim>\<open>undefined\<close> property as \<^verbatim>\<open>null\<close>.
\<close>

definition to_bson :: "jsval \<Rightarrow> jsval" where
  "to_bson v = (if v = JUndefined then JNull else v)"

definition bson_doc :: "doc \<Rightarrow> doc" where
  "bson_doc d = map (\<lambda>(k, v). (k, to_bson v)) d"

text \<open>
  Query conditions used by the handlers: equality on a property, and a case-insensitive
  \<^verbatim>\<open>$regex\<close>.  Equality follows MongoDB: \<^verbatim>\<open>null\<close> also matches a missing property, and
  an array property matches when it is the value or holds it.
\<close>

definition eq_match :: "doc \<Rightarrow> string \<Rightarrow> jsval \<Rightarrow> bool" where
  "eq_match d k v =
     (case map_of d k of
        None \<Rightarrow> to_bson v = JNull
      | Some (JArr xs) \<Rightarrow> to_bson v = JArr xs \<or> to_bson v \<in> set xs
      | Some w \<Rightarrow> w = to_bson v)"

definition matches :: "(string \<times> jsval) list \<Rightarrow> doc \<Rightarrow> bool" where
  "matches flt d = list_all (\<lambda>(k, v). eq_match d k v) flt"

text \<open>\<^verbatim>\<open>findOne(filter)\<close>: the first matching document, or \<^verbatim>\<open>null\<close>.\<close>

definition findOne :: "coll \<Rightarrow> (string \<times> jsval) list \<Rightarrow> store \<Rightarrow> doc option \<times> store" where
  "findOne c flt s = (find (matches flt) (docs c s), logged (FindOne c) s)"

text \<open>
  \<^verbatim>\<open>insertOne(doc)\<close>: a document without \<^verbatim>\<open>_id\<close> gets the id the driver generates
  (\<open>gen\<close>); an \<^verbatim>\<open>_id\<close> already present in the collection is a duplicate-key error and
  nothing is stored.  The result is the inserted id.
\<close>

datatype error = DuplicateKey

definition doc_id :: "oid \<Rightarrow> doc \<Rightarrow> jsval" where
  "doc_id gen d = (case map_of d ''_id'' of None \<Rightarrow> JOid gen | Some v \<Rightarrow> to_bson v)"

definition with_id :: "oid \<Rightarrow> doc \<Rightarrow> doc" where
  "with_id gen d =
     (case map_of d ''_id'' of None \<Rightarrow> (''_id'', JOid gen) # bson_doc d | Some v \<Rightarrow> bson_doc d)"

definition ids :: "doc list \<Rightarrow> jsval set" where
  "ids ds = (\<lambda>d. field d ''_id'') ` set ds"

definition insertOne :: "coll \<Rightarrow> oid \<Rightarrow> doc \<Rightarrow> store \<Rightarrow> (error + jsval) \<times> store" where
  "insertOne c gen d s =
     (if doc_id gen d \<in> ids (docs c s)
      then (Inl DuplicateKey, logged (InsertOne c) s)
      else (Inr (doc_id gen d), logged (InsertOne c) (put_docs c (docs c s @ [with_id gen d]) s)))"

text \<open>
  \<^verbatim>\<open>updateOne(filter, {$set: upd})\<close>: the first matching document gets every property of
  \<open>upd\<close> (replaced in place, or appended when new).  \<open>modifiedCount\<close> is 1 only when
  that changed the document: no match and a match that already holds the values both
  give 0.
\<close>

fun set_field :: "string \<Rightarrow> jsval \<Rightarrow> doc \<Rightarrow> doc" where
  "set_field k v [] = [(k, v)]"
| "set_field k v ((k', w) # d) = (if k' = k then (k, v) # d else (k', w) # set_field k v d)"

definition apply_set :: "doc \<Rightarrow> doc \<Rightarrow> doc" where
  "apply_set upd d = foldl (\<lambda>acc (k, v). set_field k (to_bson v) acc) d upd"

fun update_first :: "(doc \<Rightarrow> bool) \<Rightarrow> (doc \<Rightarrow> doc) \<Rightarrow> doc list \<Rightarrow> doc list \<times> nat" where
  "update_first P f [] = ([], 0)"
| "update_first P f (d # ds) =
     (if P d then (f d # ds, if f d = d then 0 else 1)
      else (case update_first P f ds of (ds', n) \<Rightarrow> (d # ds', n)))"

definition updateOne ::
  "coll \<Rightarrow> (string \<times> jsval) list \<Rightarrow> doc \<Rightarrow> store \<Rightarrow> nat \<times> store" where
  "updateOne c flt upd s =
     (case update_first (matches flt) (apply_set upd) (docs c s) of
        (ds', n) \<Rightarrow> (n, logged (UpdateOne c) (put_docs c ds' s)))"

text \<open>
  \<^verbatim>\<open>find(filter).sort({k: -1})\<close>: the matching documents, largest \<open>k\<close> first.  The
  sort key follows the BSON comparison order: first the type (a missing property sorts as
  \<^verbatim>\<open>null\<close>), then the value.  Arrays and objects are ordered by type only.
\<close>

fun bson_key :: "jsval \<Rightarrow> nat \<times> int \<times> string" where
  "bson_key JUndefined = (1, 0, [])"
| "bson_key JNull = (1, 0, [])"
| "bson_key (JNum n) = (2, n, [])"
| "bson_key (JStr s) = (3, 0, s)"
| "bson_key (JObj kvs) = (4, 0, [])"
| "bson_key (JArr xs) = (5, 0, [])"
| "bson_key (JOid i) = (7, int i, [])"
| "bson_key (JBool b) = (8, if b then 1 else 0, [])"
| "bson_key (JDate t) = (9, int t, [])"

definition sort_desc :: "string \<Rightarrow> doc list \<Rightarrow> doc list" where
  "sort_desc k ds = rev (sort_key (\<lambda>d. bson_key (field d k)) ds)"

definition find_sorted ::
  "coll \<Rightarrow> (string \<times> jsval) list \<Rightarrow> string \<Rightarrow> store \<Rightarrow> doc list \<times> store" where
  "find_sorted c flt k s = (sort_desc k (filter (matches flt) (docs c s)), logged (Find c) s)"

section \<open>Requests, replies and the outside world\<close>

text \<open>
  What a handler reads of a request: the \<^verbatim>\<open>Authorization\<close> header, the route parameters
  \<^verbatim>\<open>:id\<close> and \<^verbatim>\<open>:email\<close>, the parsed query string and the JSON body.  A reply is a
  status with a JSON body; \<open>Unhandled\<close> is a handler whose promise rejects outside any
  \<^verbatim>\<open>try\<close>, so that nothing is sent.
\<close>

record request =
  authorization :: "string option"
  params_id :: string
  params_email :: string
  query :: doc
  body :: doc

datatype reply = Reply nat jsval | Unhandled error

text \<open>
  The libraries the handlers call are parameters of the model: Firebase's
  \<^verbatim>\<open>verifyIdToken\<close> (\<open>None\<close>: it throws), the \<^verbatim>\<open>ObjectId\<close> constructor (\<open>None\<close>: it
  throws on a malformed id; for \<^verbatim>\<open>undefined\<close> it generates an id), the id the driver
  generates for an inserted document, the clock behind \<^verbatim>\<open>new Date()\<close>, and the regular
  expression engine for patterns outside the fragment modelled below (\<open>None\<close>: the
  pattern is rejected).
\<close>

record env =
  verifyIdToken :: "string \<Rightarrow> doc option"
  newObjectId :: "jsval \<Rightarrow> oid option"
  genId :: oid
  now :: nat
  pcre :: "string \<Rightarrow> (string \<Rightarrow> bool) option"

definition msg :: "bool \<Rightarrow> string \<Rightarrow> jsval" where
  "msg ok m = JObj [(''success'', JBool ok), (''message'', JStr m)]"

definition unauthorized :: reply where
  "unauthorized = Reply 404 (JObj [(''message'', JStr ''Unauthorized access'')])"

definition forbidden :: reply where
  "forbidden = Reply 403 (JObj [(''message'', JStr ''Forbidden access'')])"

section \<open>Middleware\<close>

text \<open>\<^verbatim>\<open>authHeader.split(" ")\<close>.\<close>

fun split_on :: "char \<Rightarrow> string \<Rightarrow> string list" where
  "split_on c [] = [[]]"
| "split_on c (x # xs) =
     (if x = c then [] # split_on c xs
      else (case split_on c xs of w # ws \<Rightarrow> (x # w) # ws | [] \<Rightarrow> [[x]]))"

text \<open>
  \<^verbatim>\<open>verifyFBToken\<close>: a missing header, or a header without a second space-separated
  part, is answered 404 "Unauthorized access"; a token Firebase rejects is answered 403.
  It reads no collection.
\<close>

definition verifyFBToken :: "env \<Rightarrow> request \<Rightarrow> reply + doc" where
  "verifyFBToken e req =
     (case authorization req of
        None \<Rightarrow> Inl unauthorized
      | Some authHeader \<Rightarrow>
          if authHeader = [] then Inl unauthorized
          else (case split_on CHR '' '' authHeader of
                  _ # token # _ \<Rightarrow>
                    if token = [] then Inl unauthorized
                    else (case verifyIdToken e token of
                            None \<Rightarrow> Inl forbidden
                          | Some decoded \<Rightarrow> Inr decoded)
                | _ \<Rightarrow> Inl unauthorized))"

text \<open>\<^verbatim>\<open>verifyAdmin\<close>: looks the caller up by the token's email and requires the role admin.\<close>

definition verifyAdmin :: "doc \<Rightarrow> store \<Rightarrow> reply option \<times> store" where
  "verifyAdmin decoded s =
     (case findOne Users [(''email'', field decoded ''email'')] s of
        (None, s1) \<Rightarrow> (Some forbidden, s1)
      | (Some user, s1) \<Rightarrow>
          if field user ''role'' \<noteq> JStr ''admin'' then (Some forbidden, s1) else (None, s1))"

text \<open>A route behind \<^verbatim>\<open>verifyFBToken\<close>, and one behind \<^verbatim>\<open>verifyFBToken, verifyAdmin\<close>.\<close>

definition token_route ::
  "(env \<Rightarrow> request \<Rightarrow> doc \<Rightarrow> store \<Rightarrow> reply \<times> store) \<Rightarrow> env \<Rightarrow> request \<Rightarrow> store \<Rightarrow> reply \<times> store" where
  "token_route h e req s =
     (case verifyFBToken e req of
        Inl r \<Rightarrow> (r, s)
      | Inr decoded \<Rightarrow> h e req decoded s)"

definition admin_route ::
  "(env \<Rightarrow> request \<Rightarrow> store \<Rightarrow> reply \<times> store) \<Rightarrow> env \<Rightarrow> request \<Rightarrow> store \<Rightarrow> reply \<times> store" where
  "admin_route h e req s =
     (case verifyFBToken e req of
        Inl r \<Rightarrow> (r, s)
      | Inr decoded \<Rightarrow>
          (case verifyAdmin decoded s of
             (Some r, s1) \<Rightarrow> (r, s1)
           | (None, s1) \<Rightarrow> h e req s1))"

section \<open>Route handlers\<close>

subsection \<open>POST /parcels\<close>

text \<open>The same handler stands in \<^verbatim>\<open>src/index.js\<close>, the first version of the server.\<close>

definition post_parcels :: "env \<Rightarrow> request \<Rightarrow> store \<Rightarrow> reply \<times> store" where
  "post_parcels e req s =
     (let parcelData = body req in
      if \<not> truthy (field parcelData ''name'') \<or> \<not> truthy (field parcelData ''type'')
         \<or> \<not> truthy (field parcelData ''senderRegion'')
         \<or> \<not> truthy (field parcelData ''receiverRegion'')
      then (Reply 400 (msg False ''Missing required fields''), s)
      else (case insertOne Parcels (genId e) parcelData s of
              (Inr insertedId, s1) \<Rightarrow>
                (Reply 201 (JObj [(''success'', JBool True),
                                  (''message'', JStr ''Parcel added successfully!''),
                                  (''insertedId'', insertedId)]), s1)
            | (Inl err, s1) \<Rightarrow> (Reply 500 (msg False ''Failed to add parcel''), s1)))"

subsection \<open>POST /riders\<close>

text \<open>The body is inserted as it is; there is no \<^verbatim>\<open>try\<close> around the insert.\<close>

definition post_riders :: "env \<Rightarrow> request \<Rightarrow> store \<Rightarrow> reply \<times> store" where
  "post_riders e req s =
     (let riderData = body req in
      case insertOne Riders (genId e) riderData s of
        (Inr insertedId, s1) \<Rightarrow>
          (Reply 200 (JObj [(''acknowledged'', JBool True), (''insertedId'', insertedId)]), s1)
      | (Inl err, s1) \<Rightarrow> (Unhandled err, s1))"

subsection \<open>POST /payments\<close>

definition post_payments :: "env \<Rightarrow> request \<Rightarrow> store \<Rightarrow> reply \<times> store" where
  "post_payments e req s =
     (let email = field (body req) ''email'';
          transactionId = field (body req) ''transactionId'';
          amount = field (body req) ''amount'';
          parcelId = field (body req) ''parcelId'';
          paymentMethod = field (body req) ''paymentMethod''
      in
      if \<not> truthy email \<or> \<not> truthy transactionId \<or> \<not> truthy amount
      then (Reply 400 (msg False ''Missing payment fields''), s)
      else
        (let paymentData =
               [(''email'', email), (''parcelId'', parcelId), (''amount'', amount),
                (''transactionId'', transactionId), (''paymentMethod'', paymentMethod),
                (''payment_status'', JStr ''paid''), (''date'', JDate (now e))]
         in
         case insertOne Payments (genId e) paymentData s of
           (Inl err, s1) \<Rightarrow> (Reply 500 (msg False ''Failed to process payment''), s1)
         | (Inr paymentId, s1) \<Rightarrow>
             (case newObjectId e parcelId of
                None \<Rightarrow> (Reply 500 (msg False ''Failed to process payment''), s1)
              | Some pid \<Rightarrow>
                  (case updateOne Parcels [(''_id'', JOid pid)]
                          [(''payment_status'', JStr ''paid'')] s1 of
                     (modifiedCount, s2) \<Rightarrow>
                       (Reply 200
                          (JObj [(''success'', JBool True),
                                 (''message'', JStr ''Payment saved and parcel updated successfully''),
                                 (''paymentId'', paymentId),
                                 (''parcelModifiedCount'', JNum (int modifiedCount))]), s2)))))"

subsection \<open>GET /riders/pending\<close>

definition riders_pending :: "env \<Rightarrow> request \<Rightarrow> store \<Rightarrow> reply \<times> store" where
  "riders_pending e req s =
     (case find_sorted Riders [(''status'', JStr ''pending'')] ''submittedAt'' s of
        (pendingRiders, s1) \<Rightarrow> (Reply 200 (JArr (map JObj pendingRiders)), s1))"

definition get_riders_pending :: "env \<Rightarrow> request \<Rightarrow> store \<Rightarrow> reply \<times> store" where
  "get_riders_pending = admin_route riders_pending"

subsection \<open>PATCH /riders/:id\<close>

text \<open>
  The role write for \<^verbatim>\<open>status === "active"\<close> comes first and stands outside the
  \<^verbatim>\<open>try\<close>; the \<^verbatim>\<open>ObjectId\<close> is built inside it.
\<close>

definition update_rider_status :: "env \<Rightarrow> request \<Rightarrow> store \<Rightarrow> reply \<times> store" where
  "update_rider_status e req s =
     (let id = params_id req;
          status = field (body req) ''status'';
          email = field (body req) ''email''
      in
      if id = [] \<or> \<not> truthy status
      then (Reply 400 (msg False ''Rider ID and status are required''), s)
      else if status \<notin> set [JStr ''pending'', JStr ''active'', JStr ''rejected'']
      then (Reply 400 (msg False ''Invalid status value''), s)
      else
        (let s1 = (if status = JStr ''active''
                   then snd (updateOne Users [(''email'', email)] [(''role'', JStr ''rider'')] s)
                   else s)
         in
         case newObjectId e (JStr id) of
           None \<Rightarrow> (Reply 500 (msg False ''Internal server error''), s1)
         | Some rid \<Rightarrow>
             (case updateOne Riders [(''_id'', JOid rid)] [(''status'', status)] s1 of
                (modifiedCount, s2) \<Rightarrow>
                  if modifiedCount = 0
                  then (Reply 404 (msg False ''Rider not found or status unchanged''), s2)
                  else (Reply 200
                          (msg True (''Rider status updated to '' @
                             (case status of JStr st \<Rightarrow> st | _ \<Rightarrow> []))), s2))))"

definition patch_riders :: "env \<Rightarrow> request \<Rightarrow> store \<Rightarrow> reply \<times> store" where
  "patch_riders = admin_route update_rider_status"

subsection \<open>PATCH /parcels/assign/:id\<close>

definition assign_rider :: "env \<Rightarrow> request \<Rightarrow> store \<Rightarrow> reply \<times> store" where
  "assign_rider e req s =
     (let parcelId = params_id req;
          riderId = field (body req) ''riderId'';
          riderName = field (body req) ''riderName'';
          riderContact = field (body req) ''riderContact''
      in
      if parcelId = [] \<or> \<not> truthy riderId
      then (Reply 400 (msg False ''Parcel ID and Rider ID are required''), s)
      else
        (let updateData =
               [(''delivery_status'', JStr ''in_transit''), (''assignedAt'', JDate (now e)),
                (''assignRider_id'', riderId), (''assignRider_name'', riderName),
                (''riderContact'', riderContact)]
         in
         case newObjectId e (JStr parcelId) of
           None \<Rightarrow> (Reply 500 (msg False ''Internal server error''), s)
         | Some pid \<Rightarrow>
             (case updateOne Parcels [(''_id'', JOid pid)] updateData s of
                (modifiedCount, s1) \<Rightarrow>
                  if modifiedCount = 0
                  then (Reply 404 (msg False ''Parcel not found or already assigned''), s1)
                  else (Reply 200
                          (JObj [(''success'', JBool True),
                                 (''message'', JStr ''Rider assigned successfully''),
                                 (''updatedParcel'', JObj updateData)]), s1))))"

definition patch_parcels_assign :: "env \<Rightarrow> request \<Rightarrow> store \<Rightarrow> reply \<times> store" where
  "patch_parcels_assign = admin_route assign_rider"

subsection \<open>GET /users/role/:email\<close>

definition get_users_role :: "env \<Rightarrow> request \<Rightarrow> store \<Rightarrow> reply \<times> store" where
  "get_users_role e req s =
     (let email = params_email req in
      if email = [] then (Reply 400 (msg False ''Email is required''), s)
      else (case findOne Users [(''email'', JStr email)] s of
              (None, s1) \<Rightarrow> (Reply 404 (msg False ''User not found''), s1)
            | (Some user, s1) \<Rightarrow>
                (Reply 200 (JObj [(''success'', JBool True), (''role'', field user ''role'')]), s1)))"

subsection \<open>GET /users/search\<close>

text \<open>
  The query text is handed to \<^verbatim>\<open>$regex\<close> with option \<^verbatim>\<open>i\<close> as it is.  The model
  evaluates the patterns made of ordinary characters and the wildcard \<^verbatim>\<open>.\<close> (any
  character but a line feed); letters compare without case (ASCII).  A pattern with any
  other metacharacter goes to the engine \<open>pcre\<close> of the environment.
\<close>

definition lower :: "char \<Rightarrow> char" where
  "lower c =
     (if c \<in> set ''ABCDEFGHIJKLMNOPQRSTUVWXYZ''
      then (case c of Char b0 b1 b2 b3 b4 b5 b6 b7 \<Rightarrow> Char b0 b1 b2 b3 b4 True b6 b7)
      else c)"

definition atom_match :: "char \<Rightarrow> char \<Rightarrow> bool" where
  "atom_match p c = (if p = CHR ''.'' then c \<noteq> CHR 0x0A else lower p = lower c)"

fun match_here :: "string \<Rightarrow> string \<Rightarrow> bool" where
  "match_here [] t = True"
| "match_here (p # ps) [] = False"
| "match_here (p # ps) (c # cs) = (atom_match p c \<and> match_here ps cs)"

fun regex_search :: "string \<Rightarrow> string \<Rightarrow> bool" where
  "regex_search p [] = match_here p []"
| "regex_search p (c # cs) = (match_here p (c # cs) \<or> regex_search p cs)"

definition metachar :: "char \<Rightarrow> bool" where
  "metachar c = (c \<in> set (CHR 0x5C # ''^$|?*+()[]{}''))"

definition regex_i :: "env \<Rightarrow> string \<Rightarrow> (string \<Rightarrow> bool) option" where
  "regex_i e p = (if list_ex metachar p then pcre e p else Some (regex_search p))"

text \<open>A \<^verbatim>\<open>$regex\<close> condition holds of a string property, or of an array holding such a string.\<close>

definition regex_field :: "(string \<Rightarrow> bool) \<Rightarrow> doc \<Rightarrow> string \<Rightarrow> bool" where
  "regex_field m d k =
     (case map_of d k of
        Some (JStr t) \<Rightarrow> m t
      | Some (JArr xs) \<Rightarrow> list_ex (\<lambda>x. case x of JStr t \<Rightarrow> m t | _ \<Rightarrow> False) xs
      | _ \<Rightarrow> False)"

definition search_users :: "env \<Rightarrow> request \<Rightarrow> store \<Rightarrow> reply \<times> store" where
  "search_users e req s =
     (let queryText = field (query req) ''query'' in
      if \<not> truthy queryText
      then (Reply 400 (msg False ''Search query is required''), s)
      else (case queryText of
              JStr p \<Rightarrow>
                (case regex_i e p of
                   None \<Rightarrow> (Reply 500 (msg False ''Failed to search users''), logged (Find Users) s)
                 | Some m \<Rightarrow>
                     (Reply 200
                        (JObj [(''success'', JBool True),
                               (''users'', JArr (map JObj
                                  (take 10 (filter (\<lambda>d. regex_field m d ''email'') (users s)))))]),
                      logged (Find Users) s))
            | _ \<Rightarrow> (Reply 500 (msg False ''Failed to search users''), logged (Find Users) s)))"

definition get_users_search :: "env \<Rightarrow> request \<Rightarrow> store \<Rightarrow> reply \<times> store" where
  "get_users_search = admin_route search_users"

subsection \<open>GET /payments\<close>

text \<open>The ownership test comes before the presence test, as in the source.\<close>

definition payment_history :: "env \<Rightarrow> request \<Rightarrow> doc \<Rightarrow> store \<Rightarrow> reply \<times> store" where
  "payment_history e req decoded s =
     (let userEmail = field (query req) ''email'' in
      if \<not> strict_eq (field decoded ''email'') userEmail then (forbidden, s)
      else if \<not> truthy userEmail
      then (Reply 400 (msg False ''Email is required in query!''), s)
      else (case find_sorted Payments [(''email'', userEmail)] ''date'' s of
              (ps, s1) \<Rightarrow> (Reply 200 (JArr (map JObj ps)), s1)))"

definition get_payments :: "env \<Rightarrow> request \<Rightarrow> store \<Rightarrow> reply \<times> store" where
  "get_payments = token_route payment_history"

section \<open>Auxiliary notions for the statements\<close>

text \<open>A request that passes both middlewares of an admin route in state \<open>s\<close>.\<close>

definition is_admin_request :: "env \<Rightarrow> request \<Rightarrow> store \<Rightarrow> bool" where
  "is_admin_request e req s =
     (case verifyFBToken e req of
        Inl r \<Rightarrow> False
      | Inr decoded \<Rightarrow> fst (verifyAdmin decoded s) = None)"

text \<open>The document with a given \<^verbatim>\<open>_id\<close>, as \<^verbatim>\<open>findOne({_id})\<close> would return it.\<close>

definition by_id :: "oid \<Rightarrow> doc list \<Rightarrow> doc option" where
  "by_id i ds = find (matches [(''_id'', JOid i)]) ds"

text \<open>
  The collection \<open>c\<close> as \<^verbatim>\<open>updateOne(flt, {$set: upd})\<close> leaves it.
\<close>

definition updated :: "coll \<Rightarrow> (string \<times> jsval) list \<Rightarrow> doc \<Rightarrow> store \<Rightarrow> doc list" where
  "updated c flt upd s = fst (update_first (matches flt) (apply_set upd) (docs c s))"

text \<open>
  The spec's wording of the user search, "case-insensitive substring match on email":
  the query occurs in the email as a contiguous run of characters, letters compared
  without case.
\<close>

definition contains_ci :: "string \<Rightarrow> string \<Rightarrow> bool" where
  "contains_ci q t = sublist (map lower q) (map lower t)"

section \<open>A concrete environment and sample data\<close>

text \<open>
  The \<^verbatim>\<open>ObjectId\<close> constructor of the driver's BSON library, for the concrete runs
  below: \<^verbatim>\<open>undefined\<close>, \<^verbatim>\<open>null\<close> and a number give a generated id, a string of 24
  hexadecimal digits gives that id, an existing id is kept, anything else throws.
\<close>

definition hex_digit :: "char \<Rightarrow> nat option" where
  "hex_digit c =
     (let n = of_char c :: nat in
      if 48 \<le> n \<and> n \<le> 57 then Some (n - 48)
      else if 97 \<le> n \<and> n \<le> 102 then Some (n - 87)
      else if 65 \<le> n \<and> n \<le> 70 then Some (n - 55)
      else None)"

fun hex_value :: "nat \<Rightarrow> string \<Rightarrow> nat option" where
  "hex_value acc [] = Some acc"
| "hex_value acc (c # cs) =
     (case hex_digit c of None \<Rightarrow> None | Some d \<Rightarrow> hex_value (16 * acc + d) cs)"

definition ObjectId :: "oid \<Rightarrow> jsval \<Rightarrow> oid option" where
  "ObjectId generated v =
     (case v of
        JUndefined \<Rightarrow> Some generated
      | JNull \<Rightarrow> Some generated
      | JNum n \<Rightarrow> Some generated
      | JOid i \<Rightarrow> Some i
      | JStr h \<Rightarrow> if length h = 24 then hex_value 0 h else None
      | _ \<Rightarrow> None)"

text \<open>
  A concrete environment: the token \<^verbatim>\<open>admin-token\<close> belongs to \<^verbatim>\<open>admin@x.com\<close>,
  \<^verbatim>\<open>user-token\<close> to \<^verbatim>\<open>u@x.com\<close>, \<^verbatim>\<open>phone-token\<close> to an account without an email;
  every other token is rejected.  The runs below use no pattern outside the modelled
  fragment, so \<open>pcre\<close> is never asked.
\<close>

definition env0 :: env where
  "env0 = \<lparr> verifyIdToken = (\<lambda>t.
               if t = ''admin-token'' then Some [(''uid'', JStr ''1''), (''email'', JStr ''admin@x.com'')]
               else if t = ''user-token'' then Some [(''uid'', JStr ''2''), (''email'', JStr ''u@x.com'')]
               else if t = ''phone-token'' then Some [(''uid'', JStr ''3'')]
               else None),
            newObjectId = ObjectId 4096,
            genId = 77,
            now = 1000,
            pcre = (\<lambda>p. None) \<rparr>"

definition store0 :: store where
  "store0 = \<lparr> parcels = [], payments = [],
              users = [[(''_id'', JOid 1), (''email'', JStr ''admin@x.com''), (''role'', JStr ''admin'')],
                       [(''_id'', JOid 2), (''email'', JStr ''u@x.com''), (''role'', JStr ''user'')]],
              riders = [], calls = [] \<rparr>"

definition request0 :: request where
  "request0 = \<lparr> authorization = None, params_id = [], params_email = [], query = [], body = [] \<rparr>"

text \<open>Requests carrying one of the three tokens, the tokens' claims, and sample data.\<close>

definition admin_request :: request where
  "admin_request = request0\<lparr>authorization := Some ''Bearer admin-token''\<rparr>"

definition user_request :: request where
  "user_request = request0\<lparr>authorization := Some ''Bearer user-token''\<rparr>"

definition phone_request :: request where
  "phone_request = request0\<lparr>authorization := Some ''Bearer phone-token''\<rparr>"

definition admin_token :: doc where
  "admin_token = [(''uid'', JStr ''1''), (''email'', JStr ''admin@x.com'')]"

definition user_token :: doc where
  "user_token = [(''uid'', JStr ''2''), (''email'', JStr ''u@x.com'')]"

definition ledger :: "doc list" where
  "ledger =
     [[(''_id'', JOid 11), (''email'', JStr ''u@x.com''), (''date'', JDate 7)],
      [(''_id'', JOid 12), (''email'', JStr ''admin@x.com''), (''date'', JDate 3)],
      [(''_id'', JOid 13), (''email'', JStr ''u@x.com''), (''date'', JDate 9)],
      [(''_id'', JOid 14), (''email'', JStr ''u@x.com''), (''date'', JDate 5)]]"

definition box_request :: request where
  "box_request = request0\<lparr>body := [(''name'', JStr ''Box''), (''type'', JStr ''doc''),
      (''senderRegion'', JStr ''N''), (''receiverRegion'', JStr ''S'')]\<rparr>"

definition rider_application :: request where
  "rider_application = request0\<lparr>body := [(''name'', JStr ''Bob''), (''status'', JStr ''active'')]\<rparr>"

definition pay_request :: "jsval \<Rightarrow> request" where
  "pay_request parcelId = request0\<lparr>body := [(''email'', JStr ''u@x.com''),
      (''transactionId'', JStr ''tx_1''), (''amount'', JNum 500), (''parcelId'', parcelId)]\<rparr>"

definition status_request :: "string \<Rightarrow> doc \<Rightarrow> request" where
  "status_request rid b = admin_request\<lparr>params_id := rid, body := b\<rparr>"

definition rider_store :: store where
  "rider_store = store0\<lparr>riders :=
     [[(''_id'', JOid 5), (''name'', JStr ''Bob''), (''status'', JStr ''active'')]]\<rparr>"

definition search_request :: "string \<Rightarrow> request" where
  "search_request q = admin_request\<lparr>query := [(''query'', JStr q)]\<rparr>"

definition search_store :: store where
  "search_store = store0\<lparr>users := users store0 @
     [[(''_id'', JOid 3), (''email'', JStr ''A@x.com''), (''role'', JStr ''user'')]]\<rparr>"

definition assign_request :: "string \<Rightarrow> string \<Rightarrow> string \<Rightarrow> request" where
  "assign_request pid rid name =
     admin_request\<lparr>params_id := pid,
        body := [(''riderId'', JStr rid), (''riderName'', JStr name), (''riderContact'', JStr ''555'')]\<rparr>"

definition parcel_store :: store where
  "parcel_store = store0\<lparr>parcels :=
     [[(''_id'', JOid 1), (''name'', JStr ''Box''), (''payment_status'', JStr ''paid'')]]\<rparr>"

definition assigned_store :: store where
  "assigned_store =
     snd (patch_parcels_assign env0 (assign_request ''000000000000000000000001'' ''r1'' ''Ann'')
            parcel_store)"

section \<open>Facts about the storage layer\<close>

lemma map_of_set_field:
  "map_of (set_field k v d) k' = (if k' = k then Some v else map_of d k')"
  by (induction d) auto

lemma field_set_field:
  "field (set_field k v d) k' = (if k' = k then v else field d k')"
  by (simp add: field_def map_of_set_field)



lemma update_first_count:
  "update_first P f ds = (ds', n) \<Longrightarrow> n = (if ds' = ds then 0 else 1)"
  by (induction ds arbitrary: ds' n) (auto split: if_splits prod.splits)

lemma update_first_none:
  "find P ds = None \<Longrightarrow> update_first P f ds = (ds, 0)"
  by (induction ds) (auto split: if_splits)

lemma update_first_some:
  "find P ds = Some d \<Longrightarrow> P (f d) \<Longrightarrow>
   find P (fst (update_first P f ds)) = Some (f d) \<and>
   snd (update_first P f ds) = (if f d = d then 0 else 1)"
  by (induction ds) (auto split: if_splits prod.splits)

text \<open>A request that passes both middlewares reaches the handler after one user lookup.\<close>

lemma admin_route_pass:
  "is_admin_request e req s \<Longrightarrow> admin_route h e req s = h e req (logged (FindOne Users) s)"
  by (auto simp: is_admin_request_def admin_route_def verifyAdmin_def findOne_def
           split: sum.splits option.splits if_splits prod.splits)

text \<open>The definitions that a concrete run of a handler unfolds.\<close>

lemmas run_simps =
  field_def to_bson_def bson_doc_def eq_match_def matches_def findOne_def logged_def
  doc_id_def with_id_def ids_def insertOne_def apply_set_def updateOne_def
  msg_def unauthorized_def forbidden_def
  verifyFBToken_def verifyAdmin_def admin_route_def is_admin_request_def
  by_id_def ObjectId_def hex_digit_def env0_def store0_def request0_def admin_request_def
  Let_def

section \<open>Access policy\<close>

text \<open>
  C4.  A request to the admin-only route \<^verbatim>\<open>GET /riders/pending\<close> that presents no
  \<^verbatim>\<open>Authorization\<close> header is answered by \<^verbatim>\<open>verifyFBToken\<close> with status 404 and the
  message "Unauthorized access".  The state comes back as it was, its record of driver
  calls included, so no collection was read or written.  A request whose token is
  accepted but whose caller is not an admin gets another reply, 403 "Forbidden access",
  after the one user lookup of \<^verbatim>\<open>verifyAdmin\<close>.  The status for the missing credential
  is 404, not one of the 401/403 class.
\<close>

theorem no_credential_reply:
  "get_riders_pending e (req\<lparr>authorization := None\<rparr>) s
     = (Reply 404 (JObj [(''message'', JStr ''Unauthorized access'')]), s)
   \<and> (\<forall>decoded. verifyFBToken e req = Inr decoded \<and> \<not> is_admin_request e req s \<longrightarrow>
         get_riders_pending e req s
           = (Reply 403 (JObj [(''message'', JStr ''Forbidden access'')]), logged (FindOne Users) s))"
  by (auto simp: get_riders_pending_def admin_route_def verifyFBToken_def unauthorized_def
        forbidden_def is_admin_request_def verifyAdmin_def findOne_def
        split: option.splits prod.splits if_splits)

text \<open>
  The user \<^verbatim>\<open>u@x.com\<close>, whose role is not admin, gets 403 with a token and 404
  without one.
\<close>

theorem no_credential_reply_witness:
  "verifyFBToken env0 user_request = Inr user_token
   \<and> \<not> is_admin_request env0 user_request store0
   \<and> fst (get_riders_pending env0 user_request store0)
       = Reply 403 (JObj [(''message'', JStr ''Forbidden access'')])
   \<and> fst (get_riders_pending env0 (user_request\<lparr>authorization := None\<rparr>) store0)
       = Reply 404 (JObj [(''message'', JStr ''Unauthorized access'')])"
proof -
  have a: "verifyFBToken env0 user_request = Inr user_token"
    by (simp add: run_simps user_request_def user_token_def)
  have b: "\<not> is_admin_request env0 user_request store0"
    by (simp add: run_simps user_request_def user_token_def)
  from no_credential_reply [of env0 user_request store0] a b
  have "get_riders_pending env0 user_request store0
           = (Reply 403 (JObj [(''message'', JStr ''Forbidden access'')]),
              logged (FindOne Users) store0)"
    and "get_riders_pending env0 (user_request\<lparr>authorization := None\<rparr>) store0
           = (Reply 404 (JObj [(''message'', JStr ''Unauthorized access'')]), store0)"
    by blast+
  then show ?thesis
    using a b by simp
qed

section \<open>Payment history\<close>

lemma sort_desc_sorted:
  "sorted_wrt (\<lambda>a b. bson_key (field b k) \<le> bson_key (field a k)) (sort_desc k ds)"
proof -
  have "sorted (map (\<lambda>d. bson_key (field d k)) (sort_key (\<lambda>d. bson_key (field d k)) ds))"
    by (rule sorted_sort_key)
  then have "sorted_wrt (\<lambda>a b. bson_key (field a k) \<le> bson_key (field b k))
               (sort_key (\<lambda>d. bson_key (field d k)) ds)"
    by (simp add: sorted_map)
  then show ?thesis
    by (simp add: sort_desc_def sorted_wrt_rev)
qed

lemma sort_desc_mset: "mset (sort_desc k ds) = mset ds"
  by (simp add: sort_desc_def)

text \<open>On dates the sort key is the date: a later date has the larger key.\<close>

lemma bson_key_date: "(bson_key (JDate b) \<le> bson_key (JDate a)) = (b \<le> a)"
  by (auto simp: less_eq_prod_def)

lemma sort_desc_dates:
  "sorted_wrt (\<lambda>x y. \<forall>a b. field x k = JDate a \<and> field y k = JDate b \<longrightarrow> b \<le> a)
     (sort_desc k ds)"
proof (rule sorted_wrt_mono_rel [OF _ sort_desc_sorted])
  fix x y
  assume "bson_key (field y k) \<le> bson_key (field x k)"
  then show "\<forall>a b. field x k = JDate a \<and> field y k = JDate b \<longrightarrow> b \<le> a"
    by (auto simp: bson_key_date)
qed

lemma token_route_pass:
  "verifyFBToken e req = Inr decoded \<Longrightarrow> token_route h e req s = h e req decoded s"
  by (simp add: token_route_def)

lemmas history_simps =
  token_route_def find_sorted_def sort_desc_def user_request_def admin_token_def user_token_def

text \<open>
  C9.  \<^verbatim>\<open>GET /payments\<close> by a caller whose token Firebase accepts: when the token's email
  is not strictly equal to the \<^verbatim>\<open>email\<close> query parameter the reply is 403 "Forbidden
  access" and nothing is read, whatever the users collection says about the caller (an
  admin is refused like anyone else).  Whenever the reply is 200, the two emails are
  strictly equal and the body is a list holding exactly the payments matching that email
  (as a multiset), ordered by date descending: of any two payments in the list that carry
  a \<^verbatim>\<open>Date\<close>, the one that comes first has the later or the same date.  For other
  values of \<^verbatim>\<open>date\<close> the list follows the BSON comparison order.
\<close>

theorem payment_history_ownership:
  assumes "verifyFBToken e req = Inr decoded"
  shows "(\<not> strict_eq (field decoded ''email'') (field (query req) ''email'')
            \<longrightarrow> get_payments e req s = (forbidden, s))
       \<and> (\<forall>b s'. get_payments e req s = (Reply 200 b, s') \<longrightarrow>
             strict_eq (field decoded ''email'') (field (query req) ''email'')
             \<and> (\<exists>ps. b = JArr (map JObj ps)
                  \<and> mset ps = mset (filter (matches [(''email'', field (query req) ''email'')])
                                      (payments s))
                  \<and> sorted_wrt (\<lambda>x y. \<forall>t u. field x ''date'' = JDate t \<and> field y ''date'' = JDate u
                                           \<longrightarrow> u \<le> t) ps
                  \<and> sorted_wrt (\<lambda>x y. bson_key (field y ''date'') \<le> bson_key (field x ''date''))
                       ps))"
proof -
  have run: "get_payments e req s = payment_history e req decoded s"
    using assms by (simp add: get_payments_def token_route_pass)
  show ?thesis
  proof (cases "strict_eq (field decoded ''email'') (field (query req) ''email'')")
    case False
    then show ?thesis
      by (simp add: run payment_history_def forbidden_def)
  next
    case eq: True
    show ?thesis
    proof (cases "truthy (field (query req) ''email'')")
      case False
      with eq show ?thesis
        by (simp add: run payment_history_def)
    next
      case True
      let ?ps = "sort_desc ''date''
                   (filter (matches [(''email'', field (query req) ''email'')]) (payments s))"
      have "get_payments e req s = (Reply 200 (JArr (map JObj ?ps)), logged (Find Payments) s)"
        using eq True by (simp add: run payment_history_def find_sorted_def)
      moreover have "mset ?ps
          = mset (filter (matches [(''email'', field (query req) ''email'')]) (payments s))"
        by (rule sort_desc_mset)
      moreover have
        "sorted_wrt (\<lambda>x y. \<forall>t u. field x ''date'' = JDate t \<and> field y ''date'' = JDate u
                              \<longrightarrow> u \<le> t) ?ps"
        by (rule sort_desc_dates)
      moreover have
        "sorted_wrt (\<lambda>x y. bson_key (field y ''date'') \<le> bson_key (field x ''date'')) ?ps"
        by (rule sort_desc_sorted)
      ultimately show ?thesis
        using eq by auto
    qed
  qed
qed

text \<open>
  The admin asking for another user's history is refused.  The user's own three payments
  were stored with the dates 7, 9 and 5, in that order, with a payment of the admin
  between them; the reply lists them as 9, 7, 5.
\<close>

theorem payment_history_ownership_witness:
  "verifyFBToken env0 (admin_request\<lparr>query := [(''email'', JStr ''u@x.com'')]\<rparr>) = Inr admin_token
   \<and> fst (verifyAdmin admin_token (store0\<lparr>payments := ledger\<rparr>)) = None
   \<and> get_payments env0 (admin_request\<lparr>query := [(''email'', JStr ''u@x.com'')]\<rparr>)
        (store0\<lparr>payments := ledger\<rparr>)
       = (Reply 403 (JObj [(''message'', JStr ''Forbidden access'')]), store0\<lparr>payments := ledger\<rparr>)
   \<and> verifyFBToken env0 (user_request\<lparr>query := [(''email'', JStr ''u@x.com'')]\<rparr>) = Inr user_token
   \<and> map (\<lambda>d. field d ''date'') (payments (store0\<lparr>payments := ledger\<rparr>))
       = [JDate 7, JDate 3, JDate 9, JDate 5]
   \<and> fst (get_payments env0 (user_request\<lparr>query := [(''email'', JStr ''u@x.com'')]\<rparr>)
        (store0\<lparr>payments := ledger\<rparr>))
       = Reply 200 (JArr
           [JObj [(''_id'', JOid 13), (''email'', JStr ''u@x.com''), (''date'', JDate 9)],
            JObj [(''_id'', JOid 11), (''email'', JStr ''u@x.com''), (''date'', JDate 7)],
            JObj [(''_id'', JOid 14), (''email'', JStr ''u@x.com''), (''date'', JDate 5)]])"
proof -
  let ?s = "store0\<lparr>payments := ledger\<rparr>"
  let ?ra = "admin_request\<lparr>query := [(''email'', JStr ''u@x.com'')]\<rparr>"
  let ?ru = "user_request\<lparr>query := [(''email'', JStr ''u@x.com'')]\<rparr>"
  have ta: "verifyFBToken env0 ?ra = Inr admin_token"
    by (simp add: run_simps history_simps)
  have tu: "verifyFBToken env0 ?ru = Inr user_token"
    by (simp add: run_simps history_simps)
  have "\<not> strict_eq (field admin_token ''email'') (field (query ?ra) ''email'')"
    by (simp add: run_simps history_simps)
  with payment_history_ownership [OF ta, of ?s]
  have refused: "get_payments env0 ?ra ?s = (forbidden, ?s)"
    by blast
  have adm: "fst (verifyAdmin admin_token ?s) = None"
    by (simp add: run_simps history_simps)
  have dates: "map (\<lambda>d. field d ''date'') (payments ?s) = [JDate 7, JDate 3, JDate 9, JDate 5]"
    by (simp add: ledger_def field_def)
  have own: "fst (get_payments env0 ?ru ?s)
       = Reply 200 (JArr
           [JObj [(''_id'', JOid 13), (''email'', JStr ''u@x.com''), (''date'', JDate 9)],
            JObj [(''_id'', JOid 11), (''email'', JStr ''u@x.com''), (''date'', JDate 7)],
            JObj [(''_id'', JOid 14), (''email'', JStr ''u@x.com''), (''date'', JDate 5)]])"
    by (simp add: get_payments_def payment_history_def ledger_def run_simps history_simps)
  show ?thesis
    using ta tu refused adm dates own by (simp add: forbidden_def)
qed

text \<open>
  C10 (as amended).  \<^verbatim>\<open>GET /payments\<close> tests ownership before presence.  For a caller
  whose verified token carries an email, a request without the \<^verbatim>\<open>email\<close> parameter is
  answered 403 "Forbidden access", not 400.  The 400 "Email is required in query!" reply
  is given exactly when the token's email and the parameter are strictly equal and falsy,
  which for an omitted parameter means a token without an email claim.
\<close>

theorem omitted_email_forbidden:
  assumes "verifyFBToken e req = Inr decoded"
  shows "(field (query req) ''email'' = JUndefined \<and> field decoded ''email'' \<noteq> JUndefined
            \<longrightarrow> get_payments e req s = (forbidden, s))
       \<and> ((\<exists>b s'. get_payments e req s = (Reply 400 b, s'))
            \<longleftrightarrow> strict_eq (field decoded ''email'') (field (query req) ''email'')
                \<and> \<not> truthy (field (query req) ''email''))"
proof -
  have run: "get_payments e req s = payment_history e req decoded s"
    using assms by (simp add: get_payments_def token_route_pass)
  have "field (query req) ''email'' = JUndefined \<Longrightarrow> field decoded ''email'' \<noteq> JUndefined
        \<Longrightarrow> \<not> strict_eq (field decoded ''email'') (field (query req) ''email'')"
    by (cases "field decoded ''email''") simp_all
  then show ?thesis
    by (auto simp: run payment_history_def forbidden_def find_sorted_def Let_def
             split: if_splits)
qed

theorem omitted_email_forbidden_witness:
  "verifyFBToken env0 user_request = Inr user_token
   \<and> field (query user_request) ''email'' = JUndefined
   \<and> field user_token ''email'' = JStr ''u@x.com''
   \<and> get_payments env0 user_request store0
       = (Reply 403 (JObj [(''message'', JStr ''Forbidden access'')]), store0)"
proof -
  have tu: "verifyFBToken env0 user_request = Inr user_token"
    by (simp add: run_simps history_simps)
  have q: "field (query user_request) ''email'' = JUndefined"
    by (simp add: run_simps history_simps)
  have c: "field user_token ''email'' = JStr ''u@x.com''"
    by (simp add: run_simps history_simps)
  from omitted_email_forbidden [OF tu, of store0] q c
  have "get_payments env0 user_request store0 = (forbidden, store0)"
    by simp
  then show ?thesis
    using tu q c by (simp add: forbidden_def)
qed

text \<open>
  The claim as stated fails for an authenticated caller whose token has no email (a
  phone sign-in): with the parameter omitted both sides are \<^verbatim>\<open>undefined\<close>, the
  ownership test passes and the reply is the 400 of the presence test.
\<close>

theorem omitted_email_counterexample:
  "verifyFBToken env0 phone_request = Inr [(''uid'', JStr ''3'')]
   \<and> field (query phone_request) ''email'' = JUndefined
   \<and> get_payments env0 phone_request store0
       = (Reply 400 (JObj [(''success'', JBool False),
                           (''message'', JStr ''Email is required in query!'')]), store0)"
  by (simp add: get_payments_def payment_history_def run_simps history_simps
        phone_request_def)

section \<open>Creating parcels and rider applications\<close>

lemma insertOne_fresh:
  "doc_id g d \<notin> ids (docs c s) \<Longrightarrow>
   insertOne c g d s
     = (Inr (doc_id g d), logged (InsertOne c) (put_docs c (docs c s @ [with_id g d]) s))"
  by (simp add: insertOne_def ids_def)

lemma insertOne_duplicate:
  "doc_id g d \<in> ids (docs c s) \<Longrightarrow> insertOne c g d s = (Inl DuplicateKey, logged (InsertOne c) s)"
  by (simp add: insertOne_def ids_def)

lemma map_of_bson_doc: "map_of (bson_doc d) k = map_option to_bson (map_of d k)"
  by (induction d) (auto simp: bson_doc_def)

lemma map_of_with_id:
  "map_of (with_id g d) k
     = (if k = ''_id'' then Some (doc_id g d) else map_option to_bson (map_of d k))"
  by (auto simp: with_id_def doc_id_def map_of_bson_doc split: option.splits)

text \<open>
  C6 (as amended).  \<^verbatim>\<open>POST /parcels\<close>: when one of name, type, senderRegion,
  receiverRegion is missing or falsy, the reply is 400 and the state is untouched.
  Otherwise, when the document's id is not in use, the reply is 201 with the inserted id
  and one document is appended to the parcels: the request body as sent, under that id.
  Every property other than \<^verbatim>\<open>_id\<close> is the body's; the handler assigns neither
  \<^verbatim>\<open>payment_status\<close> nor \<^verbatim>\<open>creation_date\<close>.
\<close>

theorem create_parcel:
  "(\<not> truthy (field (body req) ''name'') \<or> \<not> truthy (field (body req) ''type'')
      \<or> \<not> truthy (field (body req) ''senderRegion'')
      \<or> \<not> truthy (field (body req) ''receiverRegion'')
      \<longrightarrow> post_parcels e req s = (Reply 400 (msg False ''Missing required fields''), s))
   \<and> (truthy (field (body req) ''name'') \<and> truthy (field (body req) ''type'')
      \<and> truthy (field (body req) ''senderRegion'') \<and> truthy (field (body req) ''receiverRegion'')
      \<and> doc_id (genId e) (body req) \<notin> ids (parcels s)
      \<longrightarrow> (\<exists>stored.
             post_parcels e req s
               = (Reply 201 (JObj [(''success'', JBool True),
                                   (''message'', JStr ''Parcel added successfully!''),
                                   (''insertedId'', doc_id (genId e) (body req))]),
                  s\<lparr>parcels := parcels s @ [stored], calls := calls s @ [InsertOne Parcels]\<rparr>)
             \<and> map_of stored ''_id'' = Some (doc_id (genId e) (body req))
             \<and> (\<forall>k. k \<noteq> ''_id'' \<longrightarrow> map_of stored k = map_option to_bson (map_of (body req) k))))"
proof (intro conjI impI)
  assume "\<not> truthy (field (body req) ''name'') \<or> \<not> truthy (field (body req) ''type'')
      \<or> \<not> truthy (field (body req) ''senderRegion'')
      \<or> \<not> truthy (field (body req) ''receiverRegion'')"
  then show "post_parcels e req s = (Reply 400 (msg False ''Missing required fields''), s)"
    by (simp add: post_parcels_def Let_def)
next
  assume ok: "truthy (field (body req) ''name'') \<and> truthy (field (body req) ''type'')
      \<and> truthy (field (body req) ''senderRegion'') \<and> truthy (field (body req) ''receiverRegion'')
      \<and> doc_id (genId e) (body req) \<notin> ids (parcels s)"
  then have ins: "insertOne Parcels (genId e) (body req) s
      = (Inr (doc_id (genId e) (body req)),
         logged (InsertOne Parcels) (put_docs Parcels (docs Parcels s @ [with_id (genId e) (body req)]) s))"
    by (simp add: insertOne_fresh)
  have "post_parcels e req s
      = (Reply 201 (JObj [(''success'', JBool True),
                          (''message'', JStr ''Parcel added successfully!''),
                          (''insertedId'', doc_id (genId e) (body req))]),
         s\<lparr>parcels := parcels s @ [with_id (genId e) (body req)],
           calls := calls s @ [InsertOne Parcels]\<rparr>)"
    using ok by (simp add: post_parcels_def Let_def ins logged_def)
  then show "\<exists>stored.
             post_parcels e req s
               = (Reply 201 (JObj [(''success'', JBool True),
                                   (''message'', JStr ''Parcel added successfully!''),
                                   (''insertedId'', doc_id (genId e) (body req))]),
                  s\<lparr>parcels := parcels s @ [stored], calls := calls s @ [InsertOne Parcels]\<rparr>)
             \<and> map_of stored ''_id'' = Some (doc_id (genId e) (body req))
             \<and> (\<forall>k. k \<noteq> ''_id'' \<longrightarrow> map_of stored k = map_option to_bson (map_of (body req) k))"
    by (intro exI [of _ "with_id (genId e) (body req)"]) (simp add: map_of_with_id)
qed

text \<open>
  The spec's own scenario: the four required fields and nothing else.  The stored parcel
  has no \<^verbatim>\<open>payment_status\<close> and no \<^verbatim>\<open>creation_date\<close>.
\<close>

theorem create_parcel_counterexample:
  "truthy (field (body box_request) ''name'') \<and> truthy (field (body box_request) ''type'')
   \<and> truthy (field (body box_request) ''senderRegion'')
   \<and> truthy (field (body box_request) ''receiverRegion'')
   \<and> post_parcels env0 box_request store0
       = (Reply 201 (JObj [(''success'', JBool True),
                           (''message'', JStr ''Parcel added successfully!''),
                           (''insertedId'', JOid 77)]),
          store0\<lparr>parcels := [[(''_id'', JOid 77), (''name'', JStr ''Box''), (''type'', JStr ''doc''),
                               (''senderRegion'', JStr ''N''), (''receiverRegion'', JStr ''S'')]],
                 calls := [InsertOne Parcels]\<rparr>)
   \<and> field (last (parcels (snd (post_parcels env0 box_request store0)))) ''payment_status''
       \<noteq> JStr ''unpaid''
   \<and> field (last (parcels (snd (post_parcels env0 box_request store0)))) ''creation_date''
       = JUndefined"
  by (simp add: post_parcels_def box_request_def run_simps)

theorem create_parcel_witness:
  "post_parcels env0 (request0\<lparr>body := [(''name'', JStr ''Box'')]\<rparr>) store0
     = (Reply 400 (JObj [(''success'', JBool False), (''message'', JStr ''Missing required fields'')]), store0)
   \<and> doc_id (genId env0) (body box_request) = JOid 77
   \<and> JOid 77 \<notin> ids (parcels store0)
   \<and> fst (post_parcels env0 box_request store0)
       = Reply 201 (JObj [(''success'', JBool True),
                           (''message'', JStr ''Parcel added successfully!''),
                           (''insertedId'', JOid 77)])"
proof -
  have a: "\<not> truthy (field (body (request0\<lparr>body := [(''name'', JStr ''Box'')]\<rparr>)) ''type'')"
    by (simp add: run_simps)
  have b: "truthy (field (body box_request) ''name'') \<and> truthy (field (body box_request) ''type'')
      \<and> truthy (field (body box_request) ''senderRegion'')
      \<and> truthy (field (body box_request) ''receiverRegion'')
      \<and> doc_id (genId env0) (body box_request) \<notin> ids (parcels store0)"
    by (simp add: box_request_def run_simps)
  have c: "doc_id (genId env0) (body box_request) = JOid 77"
    by (simp add: box_request_def run_simps)
  from create_parcel [of "request0\<lparr>body := [(''name'', JStr ''Box'')]\<rparr>" env0 store0] a
  have r1: "post_parcels env0 (request0\<lparr>body := [(''name'', JStr ''Box'')]\<rparr>) store0
     = (Reply 400 (msg False ''Missing required fields''), store0)"
    by blast
  from create_parcel [of box_request env0 store0] b
  have r2: "fst (post_parcels env0 box_request store0)
       = Reply 201 (JObj [(''success'', JBool True),
                           (''message'', JStr ''Parcel added successfully!''),
                           (''insertedId'', doc_id (genId env0) (body box_request))])"
    by auto
  have d: "JOid 77 \<notin> ids (parcels store0)"
    by (simp add: run_simps)
  show ?thesis
    using r1 r2 c d by (simp add: msg_def)
qed

text \<open>
  C5 (as amended).  \<^verbatim>\<open>POST /riders\<close>: when the document's id is not in use, the reply
  is the insert result and one document is appended to the riders: the request body as
  sent, under that id.  Every property other than \<^verbatim>\<open>_id\<close>, \<^verbatim>\<open>status\<close> and
  \<^verbatim>\<open>submittedAt\<close> among them, is the body's, and the clock is not consulted.
\<close>

theorem apply_stores_body:
  "doc_id (genId e) (body req) \<notin> ids (riders s) \<longrightarrow>
     (\<exists>stored.
        post_riders e req s
          = (Reply 200 (JObj [(''acknowledged'', JBool True),
                              (''insertedId'', doc_id (genId e) (body req))]),
             s\<lparr>riders := riders s @ [stored], calls := calls s @ [InsertOne Riders]\<rparr>)
        \<and> map_of stored ''_id'' = Some (doc_id (genId e) (body req))
        \<and> (\<forall>k. k \<noteq> ''_id'' \<longrightarrow> map_of stored k = map_option to_bson (map_of (body req) k))
        \<and> (\<forall>t. post_riders (e\<lparr>now := t\<rparr>) req s = post_riders e req s))"
proof
  assume fresh: "doc_id (genId e) (body req) \<notin> ids (riders s)"
  then have ins: "insertOne Riders (genId e) (body req) s
      = (Inr (doc_id (genId e) (body req)),
         logged (InsertOne Riders) (put_docs Riders (docs Riders s @ [with_id (genId e) (body req)]) s))"
    by (simp add: insertOne_fresh)
  have "post_riders e req s
      = (Reply 200 (JObj [(''acknowledged'', JBool True),
                          (''insertedId'', doc_id (genId e) (body req))]),
         s\<lparr>riders := riders s @ [with_id (genId e) (body req)],
           calls := calls s @ [InsertOne Riders]\<rparr>)"
    by (simp add: post_riders_def Let_def ins logged_def)
  moreover have "\<forall>t. post_riders (e\<lparr>now := t\<rparr>) req s = post_riders e req s"
    by (simp add: post_riders_def)
  ultimately show "\<exists>stored.
        post_riders e req s
          = (Reply 200 (JObj [(''acknowledged'', JBool True),
                              (''insertedId'', doc_id (genId e) (body req))]),
             s\<lparr>riders := riders s @ [stored], calls := calls s @ [InsertOne Riders]\<rparr>)
        \<and> map_of stored ''_id'' = Some (doc_id (genId e) (body req))
        \<and> (\<forall>k. k \<noteq> ''_id'' \<longrightarrow> map_of stored k = map_option to_bson (map_of (body req) k))
        \<and> (\<forall>t. post_riders (e\<lparr>now := t\<rparr>) req s = post_riders e req s)"
    by (intro exI [of _ "with_id (genId e) (body req)"]) (simp add: map_of_with_id)
qed

text \<open>
  An application that says \<^verbatim>\<open>status: "active"\<close> and gives no \<^verbatim>\<open>submittedAt\<close> is
  stored that way.
\<close>

theorem apply_stores_body_counterexample:
  "post_riders env0 rider_application store0
     = (Reply 200 (JObj [(''acknowledged'', JBool True), (''insertedId'', JOid 77)]),
        store0\<lparr>riders := [[(''_id'', JOid 77), (''name'', JStr ''Bob''), (''status'', JStr ''active'')]],
               calls := [InsertOne Riders]\<rparr>)
   \<and> field (last (riders (snd (post_riders env0 rider_application store0)))) ''status''
       = JStr ''active''
   \<and> field (last (riders (snd (post_riders env0 rider_application store0)))) ''submittedAt''
       = JUndefined"
  by (simp add: post_riders_def rider_application_def run_simps)

theorem apply_stores_body_witness:
  "doc_id (genId env0) (body rider_application) = JOid 77
   \<and> JOid 77 \<notin> ids (riders store0)
   \<and> fst (post_riders env0 rider_application store0)
       = Reply 200 (JObj [(''acknowledged'', JBool True), (''insertedId'', JOid 77)])"
proof -
  have c: "doc_id (genId env0) (body rider_application) = JOid 77"
    by (simp add: rider_application_def run_simps)
  have d: "JOid 77 \<notin> ids (riders store0)"
    by (simp add: run_simps)
  from apply_stores_body [of env0 rider_application store0] c d
  have "fst (post_riders env0 rider_application store0)
       = Reply 200 (JObj [(''acknowledged'', JBool True),
                          (''insertedId'', doc_id (genId env0) (body rider_application))])"
    by auto
  then show ?thesis
    using c d by simp
qed

section \<open>Updates by filter\<close>

lemma map_of_apply_set_other:
  "k \<notin> fst ` set upd \<Longrightarrow> map_of (apply_set upd d) k = map_of d k"
proof (induction upd arbitrary: d)
  case Nil
  then show ?case by (simp add: apply_set_def)
next
  case (Cons kv upd)
  obtain k' v where kv: "kv = (k', v)" by (cases kv)
  have "apply_set (kv # upd) d = apply_set upd (set_field k' (to_bson v) d)"
    by (simp add: apply_set_def kv)
  with Cons show ?case
    by (simp add: kv map_of_set_field)
qed

lemma matches_apply_set:
  assumes "fst ` set flt \<inter> fst ` set upd = {}"
  shows "matches flt (apply_set upd d) = matches flt d"
proof -
  have "eq_match (apply_set upd d) k v = eq_match d k v" if "(k, v) \<in> set flt" for k v
  proof -
    from that assms have "k \<notin> fst ` set upd" by force
    then show ?thesis by (simp add: eq_match_def map_of_apply_set_other)
  qed
  then show ?thesis
    by (auto simp: matches_def list_all_iff)
qed

lemma updateOne_eq:
  "updateOne c flt upd s
     = ((if updated c flt upd s = docs c s then 0 else 1),
        logged (UpdateOne c) (put_docs c (updated c flt upd s) s))"
proof -
  obtain ds' n where u: "update_first (matches flt) (apply_set upd) (docs c s) = (ds', n)"
    by (cases "update_first (matches flt) (apply_set upd) (docs c s)")
  have n: "n = (if ds' = docs c s then 0 else 1)"
    using u by (rule update_first_count)
  show ?thesis
    using n by (simp add: updateOne_def updated_def u)
qed

lemma updated_none:
  "find (matches flt) (docs c s) = None \<Longrightarrow> updated c flt upd s = docs c s"
  by (simp add: updated_def update_first_none)

lemma updated_some:
  assumes "fst ` set flt \<inter> fst ` set upd = {}"
      and "find (matches flt) (docs c s) = Some d"
  shows "find (matches flt) (updated c flt upd s) = Some (apply_set upd d)"
    and "(updated c flt upd s = docs c s) = (apply_set upd d = d)"
proof -
  obtain ds' n where u: "update_first (matches flt) (apply_set upd) (docs c s) = (ds', n)"
    by (cases "update_first (matches flt) (apply_set upd) (docs c s)")
  have n: "n = (if ds' = docs c s then 0 else 1)"
    using u by (rule update_first_count)
  from assms(2) have "matches flt d" by (auto simp: find_Some_iff)
  then have "matches flt (apply_set upd d)"
    by (simp add: matches_apply_set [OF assms(1)])
  from update_first_some [of "matches flt" "docs c s" d "apply_set upd", OF assms(2) this] u
  have a: "find (matches flt) ds' = Some (apply_set upd d)"
    and b: "n = (if apply_set upd d = d then 0 else 1)"
    by simp_all
  have "(if apply_set upd d = d then (0::nat) else 1) = (if ds' = docs c s then 0 else 1)"
    using b n by (rule trans [OF sym])
  then have c: "(ds' = docs c s) = (apply_set upd d = d)"
    by (cases "apply_set upd d = d"; cases "ds' = docs c s"; simp)
  show "find (matches flt) (updated c flt upd s) = Some (apply_set upd d)"
    using a by (simp add: updated_def u)
  show "(updated c flt upd s = docs c s) = (apply_set upd d = d)"
    using c by (simp add: updated_def u)
qed

lemma apply_set_single: "apply_set [(k, v)] d = set_field k (to_bson v) d"
  by (simp add: apply_set_def)

section \<open>Recording a payment\<close>

text \<open>
  C1 (as amended).  \<^verbatim>\<open>POST /payments\<close> with email, transactionId and amount truthy,
  when the payment insert succeeds (the generated id is not in use).  The payment is
  inserted first, with \<^verbatim>\<open>payment_status = "paid"\<close>.  If the \<^verbatim>\<open>ObjectId\<close> constructor
  accepts \<^verbatim>\<open>parcelId\<close>, the parcel update is issued next, and the reply is 200 with
  \<^verbatim>\<open>success = true\<close> and \<^verbatim>\<open>parcelModifiedCount\<close> 0 when the parcels are unchanged, 1
  otherwise: a parcel with that id gets \<^verbatim>\<open>payment_status = "paid"\<close>, and when there is
  none the parcels stay as they are.  If the constructor throws, only the insert was
  issued: the payment stays stored and the reply is 500.
\<close>

theorem record_payment:
  assumes "truthy (field (body req) ''email'')"
      and "truthy (field (body req) ''transactionId'')"
      and "truthy (field (body req) ''amount'')"
      and "JOid (genId e) \<notin> ids (payments s)"
  shows "(newObjectId e (field (body req) ''parcelId'') = None \<longrightarrow>
            (\<exists>payment.
               post_payments e req s
                 = (Reply 500 (msg False ''Failed to process payment''),
                    s\<lparr>payments := payments s @ [payment],
                      calls := calls s @ [InsertOne Payments]\<rparr>)))
       \<and> (\<forall>pid. newObjectId e (field (body req) ''parcelId'') = Some pid \<longrightarrow>
            (\<exists>payment ps.
               post_payments e req s
                 = (Reply 200
                      (JObj [(''success'', JBool True),
                             (''message'', JStr ''Payment saved and parcel updated successfully''),
                             (''paymentId'', JOid (genId e)),
                             (''parcelModifiedCount'', JNum (if ps = parcels s then 0 else 1))]),
                    s\<lparr>parcels := ps, payments := payments s @ [payment],
                      calls := calls s @ [InsertOne Payments, UpdateOne Parcels]\<rparr>)
               \<and> field payment ''payment_status'' = JStr ''paid''
               \<and> field payment ''email'' = field (body req) ''email''
               \<and> (\<forall>p. by_id pid (parcels s) = Some p \<longrightarrow>
                      by_id pid ps = Some (set_field ''payment_status'' (JStr ''paid'') p))
               \<and> (by_id pid (parcels s) = None \<longrightarrow> ps = parcels s)))"
proof -
  let ?b = "body req"
  let ?data = "[(''email'', field ?b ''email''), (''parcelId'', field ?b ''parcelId''),
                (''amount'', field ?b ''amount''), (''transactionId'', field ?b ''transactionId''),
                (''paymentMethod'', field ?b ''paymentMethod''),
                (''payment_status'', JStr ''paid''), (''date'', JDate (now e))]"
  let ?payment = "with_id (genId e) ?data"
  let ?s1 = "logged (InsertOne Payments) (s\<lparr>payments := payments s @ [?payment]\<rparr>)"
  have id: "doc_id (genId e) ?data = JOid (genId e)"
    by (simp add: doc_id_def)
  have ins: "insertOne Payments (genId e) ?data s = (Inr (JOid (genId e)), ?s1)"
    using assms(4) insertOne_fresh [of "genId e" ?data Payments s] by (simp add: id)
  have paid: "field ?payment ''payment_status'' = JStr ''paid''"
    by (simp add: field_def map_of_with_id to_bson_def)
  have mail: "field ?payment ''email'' = field ?b ''email''"
    using assms(1) by (auto simp: field_def map_of_with_id to_bson_def)
  have s1: "?s1 = s\<lparr>payments := payments s @ [?payment], calls := calls s @ [InsertOne Payments]\<rparr>"
    by (simp add: logged_def)
  have bad: "post_payments e req s = (Reply 500 (msg False ''Failed to process payment''), ?s1)"
    if "newObjectId e (field ?b ''parcelId'') = None"
    using assms(1-3) that by (simp add: post_payments_def Let_def ins)
  have same: "docs Parcels ?s1 = parcels s"
    by (simp add: logged_def)
  have dis: "fst ` set [(''_id'', JOid pid)] \<inter> fst ` set [(''payment_status'', JStr ''paid'')] = {}"
    for pid :: oid
    by simp
  have good: "post_payments e req s
                 = (Reply 200
                      (JObj [(''success'', JBool True),
                             (''message'', JStr ''Payment saved and parcel updated successfully''),
                             (''paymentId'', JOid (genId e)),
                             (''parcelModifiedCount'',
                                JNum (if updated Parcels [(''_id'', JOid pid)]
                                            [(''payment_status'', JStr ''paid'')] s = parcels s
                                      then 0 else 1))]),
                    s\<lparr>parcels := updated Parcels [(''_id'', JOid pid)]
                                     [(''payment_status'', JStr ''paid'')] s,
                      payments := payments s @ [?payment],
                      calls := calls s @ [InsertOne Payments, UpdateOne Parcels]\<rparr>)"
    if pid: "newObjectId e (field ?b ''parcelId'') = Some pid" for pid
  proof -
    let ?ps = "updated Parcels [(''_id'', JOid pid)] [(''payment_status'', JStr ''paid'')] s"
    have ps: "updated Parcels [(''_id'', JOid pid)] [(''payment_status'', JStr ''paid'')] ?s1 = ?ps"
      by (simp add: updated_def logged_def)
    have u: "updateOne Parcels [(''_id'', JOid pid)] [(''payment_status'', JStr ''paid'')] ?s1
        = ((if ?ps = parcels s then 0 else 1),
           logged (UpdateOne Parcels) (put_docs Parcels ?ps ?s1))"
      using updateOne_eq [of Parcels "[(''_id'', JOid pid)]" "[(''payment_status'', JStr ''paid'')]" ?s1]
      unfolding ps same .
    have st: "logged (UpdateOne Parcels) (put_docs Parcels ?ps ?s1)
        = s\<lparr>parcels := ?ps, payments := payments s @ [?payment],
            calls := calls s @ [InsertOne Payments, UpdateOne Parcels]\<rparr>"
      by (simp add: logged_def)
    have "post_payments e req s
        = (Reply 200
             (JObj [(''success'', JBool True),
                    (''message'', JStr ''Payment saved and parcel updated successfully''),
                    (''paymentId'', JOid (genId e)),
                    (''parcelModifiedCount'', JNum (int (if ?ps = parcels s then 0 else 1)))]),
           logged (UpdateOne Parcels) (put_docs Parcels ?ps ?s1))"
      using assms(1-3) pid by (simp add: post_payments_def Let_def ins u)
    then show ?thesis
      unfolding st by (cases "?ps = parcels s") simp_all
  qed
  let ?ps = "\<lambda>pid. updated Parcels [(''_id'', JOid pid)] [(''payment_status'', JStr ''paid'')] s"
  have hit: "by_id pid (?ps pid) = Some (set_field ''payment_status'' (JStr ''paid'') p)"
    if "by_id pid (parcels s) = Some p" for pid p
    using updated_some(1) [OF dis, of pid Parcels s p] that
    by (simp add: by_id_def apply_set_single to_bson_def)
  have miss: "?ps pid = parcels s" if "by_id pid (parcels s) = None" for pid
    using updated_none [of "[(''_id'', JOid pid)]" Parcels s] that
    by (simp add: by_id_def)
  show ?thesis
  proof (intro conjI allI impI)
    assume "newObjectId e (field ?b ''parcelId'') = None"
    from bad [OF this] show "\<exists>payment.
               post_payments e req s
                 = (Reply 500 (msg False ''Failed to process payment''),
                    s\<lparr>payments := payments s @ [payment],
                      calls := calls s @ [InsertOne Payments]\<rparr>)"
      unfolding s1 by (rule exI)
  next
    fix pid
    assume pid: "newObjectId e (field ?b ''parcelId'') = Some pid"
    let ?ps = "updated Parcels [(''_id'', JOid pid)] [(''payment_status'', JStr ''paid'')] s"
    have "post_payments e req s
                 = (Reply 200
                      (JObj [(''success'', JBool True),
                             (''message'', JStr ''Payment saved and parcel updated successfully''),
                             (''paymentId'', JOid (genId e)),
                             (''parcelModifiedCount'', JNum (if ?ps = parcels s then 0 else 1))]),
                    s\<lparr>parcels := ?ps, payments := payments s @ [?payment],
                      calls := calls s @ [InsertOne Payments, UpdateOne Parcels]\<rparr>)
               \<and> field ?payment ''payment_status'' = JStr ''paid''
               \<and> field ?payment ''email'' = field (body req) ''email''
               \<and> (\<forall>p. by_id pid (parcels s) = Some p \<longrightarrow>
                      by_id pid ?ps = Some (set_field ''payment_status'' (JStr ''paid'') p))
               \<and> (by_id pid (parcels s) = None \<longrightarrow> ?ps = parcels s)"
      using good [OF pid] paid mail hit [of pid] miss [of pid] by simp
    then show "\<exists>payment ps.
               post_payments e req s
                 = (Reply 200
                      (JObj [(''success'', JBool True),
                             (''message'', JStr ''Payment saved and parcel updated successfully''),
                             (''paymentId'', JOid (genId e)),
                             (''parcelModifiedCount'', JNum (if ps = parcels s then 0 else 1))]),
                    s\<lparr>parcels := ps, payments := payments s @ [payment],
                      calls := calls s @ [InsertOne Payments, UpdateOne Parcels]\<rparr>)
               \<and> field payment ''payment_status'' = JStr ''paid''
               \<and> field payment ''email'' = field (body req) ''email''
               \<and> (\<forall>p. by_id pid (parcels s) = Some p \<longrightarrow>
                      by_id pid ps = Some (set_field ''payment_status'' (JStr ''paid'') p))
               \<and> (by_id pid (parcels s) = None \<longrightarrow> ps = parcels s)"
      by (intro exI [of _ ?payment] exI [of _ ?ps])
  qed
qed

text \<open>
  A payment for a parcel id that no parcel has: the payment is stored, no parcel changes,
  and the reply is a success that reports zero modified parcels.
\<close>

theorem record_payment_witness:
  "truthy (field (body (pay_request (JStr ''000000000000000000000009''))) ''email'')
   \<and> truthy (field (body (pay_request (JStr ''000000000000000000000009''))) ''transactionId'')
   \<and> truthy (field (body (pay_request (JStr ''000000000000000000000009''))) ''amount'')
   \<and> JOid (genId env0) \<notin> ids (payments store0)
   \<and> newObjectId env0 (field (body (pay_request (JStr ''000000000000000000000009''))) ''parcelId'')
       = Some 9
   \<and> by_id 9 (parcels store0) = None
   \<and> fst (post_payments env0 (pay_request (JStr ''000000000000000000000009'')) store0)
       = Reply 200
           (JObj [(''success'', JBool True),
                  (''message'', JStr ''Payment saved and parcel updated successfully''),
                  (''paymentId'', JOid 77),
                  (''parcelModifiedCount'', JNum 0)])"
proof -
  let ?r = "pay_request (JStr ''000000000000000000000009'')"
  have p1: "truthy (field (body ?r) ''email'')"
    and p2: "truthy (field (body ?r) ''transactionId'')"
    and p3: "truthy (field (body ?r) ''amount'')"
    by (simp_all add: run_simps pay_request_def)
  have f: "JOid (genId env0) \<notin> ids (payments store0)"
    by (simp add: run_simps pay_request_def)
  have o: "newObjectId env0 (field (body ?r) ''parcelId'') = Some 9"
    by (simp add: run_simps pay_request_def)
  have n: "by_id 9 (parcels store0) = None"
    by (simp add: run_simps pay_request_def)
  have g: "genId env0 = 77"
    by (simp add: env0_def)
  from record_payment [OF p1 p2 p3 f] o
  obtain payment ps where
    r: "post_payments env0 ?r store0
          = (Reply 200
               (JObj [(''success'', JBool True),
                      (''message'', JStr ''Payment saved and parcel updated successfully''),
                      (''paymentId'', JOid (genId env0)),
                      (''parcelModifiedCount'', JNum (if ps = parcels store0 then 0 else 1))]),
             store0\<lparr>parcels := ps, payments := payments store0 @ [payment],
               calls := calls store0 @ [InsertOne Payments, UpdateOne Parcels]\<rparr>)"
    and z: "by_id 9 (parcels store0) = None \<longrightarrow> ps = parcels store0"
    by blast
  from z n have "ps = parcels store0" by simp
  with r g have "fst (post_payments env0 ?r store0)
       = Reply 200
           (JObj [(''success'', JBool True),
                  (''message'', JStr ''Payment saved and parcel updated successfully''),
                  (''paymentId'', JOid 77),
                  (''parcelModifiedCount'', JNum 0)])"
    by simp
  then show ?thesis
    using p1 p2 p3 f o n by simp
qed

text \<open>
  The claim as stated fails for a payment whose \<^verbatim>\<open>parcelId\<close> is not a well-formed id:
  the payment is inserted, the \<^verbatim>\<open>ObjectId\<close> constructor throws, no update is issued and
  the whole request is answered 500.
\<close>

theorem record_payment_counterexample:
  "truthy (field (body (pay_request (JStr ''abc''))) ''email'')
   \<and> truthy (field (body (pay_request (JStr ''abc''))) ''transactionId'')
   \<and> truthy (field (body (pay_request (JStr ''abc''))) ''amount'')
   \<and> post_payments env0 (pay_request (JStr ''abc'')) store0
       = (Reply 500 (JObj [(''success'', JBool False),
                           (''message'', JStr ''Failed to process payment'')]),
          store0\<lparr>payments :=
                   [[(''_id'', JOid 77), (''email'', JStr ''u@x.com''), (''parcelId'', JStr ''abc''),
                     (''amount'', JNum 500), (''transactionId'', JStr ''tx_1''),
                     (''paymentMethod'', JNull), (''payment_status'', JStr ''paid''),
                     (''date'', JDate 1000)]],
                 calls := [InsertOne Payments]\<rparr>)"
  by (simp add: post_payments_def run_simps pay_request_def)

section \<open>Rider status\<close>

lemma updated_cong:
  "docs c s' = docs c s \<Longrightarrow> updated c flt upd s' = updated c flt upd s"
  by (simp add: updated_def)






section \<open>Role promotion\<close>

lemma update_rider_status_active:
  assumes "params_id req \<noteq> []"
      and "field (body req) ''status'' = JStr ''active''"
  shows "users (snd (update_rider_status e req s))
           = updated Users [(''email'', field (body req) ''email'')] [(''role'', JStr ''rider'')] s"
    and "calls (snd (update_rider_status e req s))
           = calls s @ [UpdateOne Users] @
             (case newObjectId e (JStr (params_id req)) of None \<Rightarrow> [] | Some rid \<Rightarrow> [UpdateOne Riders])"
  using assms
  by (auto simp: update_rider_status_def Let_def updateOne_eq logged_def split: option.splits)

text \<open>
  C3.  \<^verbatim>\<open>PATCH /riders/:id\<close> by an admin with status active and the email of a stored
  user: in the state the request leaves behind, \<^verbatim>\<open>GET /users/role/:email\<close> answers with
  the role rider.  Nothing is assumed about the rider id, so this covers the replies
  200, 404 (no rider changed) and 500 (malformed id) alike.  The driver calls are the
  admin lookup, then the role write, then (if the id is well formed) the status write.
\<close>

theorem activation_promotes_user:
  assumes "is_admin_request e req s"
      and "params_id req \<noteq> []"
      and "field (body req) ''status'' = JStr ''active''"
      and "field (body req) ''email'' = JStr em"
      and "em \<noteq> []"
      and "find (matches [(''email'', JStr em)]) (users s) = Some u"
  shows "fst (get_users_role e' (req'\<lparr>params_email := em\<rparr>) (snd (patch_riders e req s)))
           = Reply 200 (JObj [(''success'', JBool True), (''role'', JStr ''rider'')])
       \<and> calls (snd (patch_riders e req s))
           = calls s @ [FindOne Users, UpdateOne Users] @
             (case newObjectId e (JStr (params_id req)) of None \<Rightarrow> [] | Some rid \<Rightarrow> [UpdateOne Riders])"
proof -
  let ?s0 = "logged (FindOne Users) s"
  let ?flt = "[(''email'', JStr em)]"
  let ?upd = "[(''role'', JStr ''rider'')]"
  let ?s' = "snd (patch_riders e req s)"
  have run: "patch_riders e req s = update_rider_status e req ?s0"
    using assms(1) by (simp add: patch_riders_def admin_route_pass)
  have us: "users ?s' = updated Users ?flt ?upd s"
    unfolding run update_rider_status_active(1) [OF assms(2,3)] assms(4)
    by (rule updated_cong) (simp add: logged_def)
  have dis: "fst ` set ?flt \<inter> fst ` set ?upd = {}"
    by simp
  have "find (matches ?flt) (docs Users s) = Some u"
    using assms(6) by simp
  from updated_some(1) [OF dis this]
  have found: "find (matches ?flt) (users ?s') = Some (set_field ''role'' (JStr ''rider'') u)"
    by (simp add: us apply_set_single to_bson_def)
  have role: "fst (get_users_role e' (req'\<lparr>params_email := em\<rparr>) ?s')
                = Reply 200 (JObj [(''success'', JBool True), (''role'', JStr ''rider'')])"
    using assms(5) found by (simp add: get_users_role_def findOne_def field_set_field)
  have order: "calls ?s'
           = calls s @ [FindOne Users, UpdateOne Users] @
             (case newObjectId e (JStr (params_id req)) of None \<Rightarrow> [] | Some rid \<Rightarrow> [UpdateOne Riders])"
    unfolding run update_rider_status_active(2) [OF assms(2,3)]
    by (simp add: logged_def)
  show ?thesis
    using role order by simp
qed

text \<open>
  Activating a rider id that no rider has: the reply is 404, and the user named in the
  body is a rider afterwards.
\<close>

theorem activation_promotes_user_witness:
  "is_admin_request env0
     (status_request ''000000000000000000000009''
        [(''status'', JStr ''active''), (''email'', JStr ''u@x.com'')]) rider_store
   \<and> find (matches [(''email'', JStr ''u@x.com'')]) (users rider_store)
       = Some [(''_id'', JOid 2), (''email'', JStr ''u@x.com''), (''role'', JStr ''user'')]
   \<and> fst (patch_riders env0
        (status_request ''000000000000000000000009''
           [(''status'', JStr ''active''), (''email'', JStr ''u@x.com'')]) rider_store)
       = Reply 404 (JObj [(''success'', JBool False),
                          (''message'', JStr ''Rider not found or status unchanged'')])
   \<and> fst (get_users_role env0 (request0\<lparr>params_email := ''u@x.com''\<rparr>)
        (snd (patch_riders env0
           (status_request ''000000000000000000000009''
              [(''status'', JStr ''active''), (''email'', JStr ''u@x.com'')]) rider_store)))
       = Reply 200 (JObj [(''success'', JBool True), (''role'', JStr ''rider'')])"
proof -
  let ?req = "status_request ''000000000000000000000009''
                [(''status'', JStr ''active''), (''email'', JStr ''u@x.com'')]"
  let ?u = "[(''_id'', JOid 2), (''email'', JStr ''u@x.com''), (''role'', JStr ''user'')]"
  have h1: "is_admin_request env0 ?req rider_store"
    by (simp add: run_simps status_request_def rider_store_def)
  have h2: "params_id ?req \<noteq> []"
    by (simp add: run_simps status_request_def rider_store_def)
  have h3: "field (body ?req) ''status'' = JStr ''active''"
    by (simp add: run_simps status_request_def rider_store_def)
  have h4: "field (body ?req) ''email'' = JStr ''u@x.com''"
    by (simp add: run_simps status_request_def rider_store_def)
  have h5: "''u@x.com'' \<noteq> []"
    by simp
  have h6: "find (matches [(''email'', JStr ''u@x.com'')]) (users rider_store) = Some ?u"
    by (simp add: run_simps status_request_def rider_store_def)
  have r: "fst (patch_riders env0 ?req rider_store)
       = Reply 404 (JObj [(''success'', JBool False),
                          (''message'', JStr ''Rider not found or status unchanged'')])"
    by (simp add: patch_riders_def update_rider_status_def run_simps status_request_def rider_store_def)
  from activation_promotes_user [OF h1 h2 h3 h4 h5 h6, of env0 request0]
  have "fst (get_users_role env0 (request0\<lparr>params_email := ''u@x.com''\<rparr>)
               (snd (patch_riders env0 ?req rider_store)))
          = Reply 200 (JObj [(''success'', JBool True), (''role'', JStr ''rider'')])"
    by blast
  then show ?thesis
    using h1 h6 r by simp
qed

section \<open>Assigning a rider\<close>

text \<open>
  A paid parcel, assigned by an admin to rider r1 at time 1000: \<open>assigned_store\<close> is the
  state after that first assignment.
\<close>

lemma assigned_store_eq:
  "assigned_store = parcel_store\<lparr>parcels :=
       [[(''_id'', JOid 1), (''name'', JStr ''Box''), (''payment_status'', JStr ''paid''),
         (''delivery_status'', JStr ''in_transit''), (''assignedAt'', JDate 1000),
         (''assignRider_id'', JStr ''r1''), (''assignRider_name'', JStr ''Ann''),
         (''riderContact'', JStr ''555'')]],
     calls := [FindOne Users, UpdateOne Parcels]\<rparr>"
  by (simp add: assigned_store_def run_simps assign_request_def parcel_store_def patch_parcels_assign_def assign_rider_def)

text \<open>
  C7.  \<^verbatim>\<open>PATCH /parcels/assign/:id\<close> filters on \<^verbatim>\<open>_id\<close> alone.  A second assignment of
  the parcel that is already assigned to r1, sent by an admin at time 2000 for rider r2,
  is answered 200 "Rider assigned successfully", and the parcel's rider fields and
  \<^verbatim>\<open>assignedAt\<close> now carry the second assignment.  The reply 404 "Parcel not found or
  already assigned" is not given.
\<close>

theorem second_assignment_overwrites:
  "by_id 1 (parcels assigned_store)
     = Some [(''_id'', JOid 1), (''name'', JStr ''Box''), (''payment_status'', JStr ''paid''),
             (''delivery_status'', JStr ''in_transit''), (''assignedAt'', JDate 1000),
             (''assignRider_id'', JStr ''r1''), (''assignRider_name'', JStr ''Ann''),
             (''riderContact'', JStr ''555'')]
   \<and> fst (patch_parcels_assign (env0\<lparr>now := 2000\<rparr>)
            (assign_request ''000000000000000000000001'' ''r2'' ''Ben'') assigned_store)
       = Reply 200
           (JObj [(''success'', JBool True), (''message'', JStr ''Rider assigned successfully''),
                  (''updatedParcel'',
                   JObj [(''delivery_status'', JStr ''in_transit''), (''assignedAt'', JDate 2000),
                         (''assignRider_id'', JStr ''r2''), (''assignRider_name'', JStr ''Ben''),
                         (''riderContact'', JStr ''555'')])])
   \<and> by_id 1 (parcels (snd (patch_parcels_assign (env0\<lparr>now := 2000\<rparr>)
            (assign_request ''000000000000000000000001'' ''r2'' ''Ben'') assigned_store)))
       = Some [(''_id'', JOid 1), (''name'', JStr ''Box''), (''payment_status'', JStr ''paid''),
               (''delivery_status'', JStr ''in_transit''), (''assignedAt'', JDate 2000),
               (''assignRider_id'', JStr ''r2''), (''assignRider_name'', JStr ''Ben''),
               (''riderContact'', JStr ''555'')]"
  by (simp add: assigned_store_eq run_simps assign_request_def parcel_store_def patch_parcels_assign_def assign_rider_def)

section \<open>User search\<close>

lemma match_here_plain:
  "CHR ''.'' \<notin> set p \<Longrightarrow> match_here p t = prefix (map lower p) (map lower t)"
  by (induction p t rule: match_here.induct) (auto simp: atom_match_def)

lemma regex_search_plain:
  "CHR ''.'' \<notin> set p \<Longrightarrow> regex_search p t = contains_ci p t"
proof (induction t)
  case Nil
  then show ?case
    by (cases p) (simp_all add: contains_ci_def)
next
  case (Cons c cs)
  then show ?case
    by (simp add: contains_ci_def sublist_Cons_right match_here_plain)
qed

text \<open>
  C8 (as amended).  \<^verbatim>\<open>GET /users/search\<close> by an admin.  A missing or falsy query is
  answered 400.  A non-empty query string that the engine accepts as a pattern is
  answered 200 with at most ten users: the first ten, in natural order, whose email the
  pattern matches.  The query is a pattern, not a literal text; for a query without
  metacharacters the pattern is the case-insensitive substring test of the spec.
\<close>

theorem search_users_regex:
  assumes "is_admin_request e req s"
  shows "(\<not> truthy (field (query req) ''query'') \<longrightarrow>
            fst (get_users_search e req s) = Reply 400 (msg False ''Search query is required''))
       \<and> (\<forall>p m. field (query req) ''query'' = JStr p \<and> p \<noteq> [] \<and> regex_i e p = Some m \<longrightarrow>
            (\<exists>us. fst (get_users_search e req s)
                     = Reply 200 (JObj [(''success'', JBool True), (''users'', JArr (map JObj us))])
                 \<and> length us \<le> 10
                 \<and> us = take 10 (filter (\<lambda>d. regex_field m d ''email'') (users s))))
       \<and> (\<forall>p. \<not> list_ex metachar p \<and> CHR ''.'' \<notin> set p \<longrightarrow> regex_i e p = Some (contains_ci p))"
proof -
  let ?s0 = "logged (FindOne Users) s"
  have run: "get_users_search e req s = search_users e req ?s0"
    using assms by (simp add: get_users_search_def admin_route_pass)
  have same: "users ?s0 = users s"
    by (simp add: logged_def)
  have a: "fst (get_users_search e req s) = Reply 400 (msg False ''Search query is required'')"
    if "\<not> truthy (field (query req) ''query'')"
    using that by (simp add: run search_users_def)
  have b: "fst (get_users_search e req s)
             = Reply 200 (JObj [(''success'', JBool True),
                  (''users'', JArr (map JObj (take 10 (filter (\<lambda>d. regex_field m d ''email'') (users s)))))])"
    if "field (query req) ''query'' = JStr p" "p \<noteq> []" "regex_i e p = Some m" for p m
    using that by (simp add: run search_users_def same)
  have c: "regex_i e p = Some (contains_ci p)" if "\<not> list_ex metachar p" "CHR ''.'' \<notin> set p" for p
  proof -
    have "regex_search p = contains_ci p"
      using that(2) by (intro ext) (rule regex_search_plain)
    with that(1) show ?thesis by (simp add: regex_i_def)
  qed
  show ?thesis
    using a b c by simp
qed

text \<open>Searching \<^verbatim>\<open>a@\<close> finds \<^verbatim>\<open>A@x.com\<close> and not \<^verbatim>\<open>admin@x.com\<close>.\<close>

theorem search_users_regex_witness:
  "is_admin_request env0 (search_request ''a@'') search_store
   \<and> regex_i env0 ''a@'' = Some (contains_ci ''a@'')
   \<and> fst (get_users_search env0 (search_request ''a@'') search_store)
       = Reply 200 (JObj [(''success'', JBool True),
           (''users'', JArr [JObj [(''_id'', JOid 3), (''email'', JStr ''A@x.com''),
                                   (''role'', JStr ''user'')]])])"
proof -
  have h: "is_admin_request env0 (search_request ''a@'') search_store"
    by (simp add: run_simps search_request_def search_store_def get_users_search_def search_users_def
          regex_i_def metachar_def regex_field_def lower_def atom_match_def)
  have q: "field (query (search_request ''a@'')) ''query'' = JStr ''a@''"
    by (simp add: run_simps search_request_def search_store_def get_users_search_def search_users_def
          regex_i_def metachar_def regex_field_def lower_def atom_match_def)
  have pl: "\<not> list_ex metachar ''a@'' \<and> CHR ''.'' \<notin> set ''a@''"
    by (simp add: metachar_def)
  from search_users_regex [OF h] pl
  have m: "regex_i env0 ''a@'' = Some (contains_ci ''a@'')"
    by blast
  from search_users_regex [OF h] q m
  have "fst (get_users_search env0 (search_request ''a@'') search_store)
          = Reply 200 (JObj [(''success'', JBool True),
              (''users'', JArr (map JObj (take 10
                 (filter (\<lambda>d. regex_field (contains_ci ''a@'') d ''email'') (users search_store)))))])"
    by auto
  moreover have "filter (\<lambda>d. regex_field (contains_ci ''a@'') d ''email'') (users search_store)
      = [[(''_id'', JOid 3), (''email'', JStr ''A@x.com''), (''role'', JStr ''user'')]]"
    by (simp add: search_store_def store0_def regex_field_def contains_ci_def lower_def
          sublist_Cons_right)
  ultimately show ?thesis
    using h m by simp
qed

text \<open>
  The claim as stated fails for a query with a metacharacter: \<^verbatim>\<open>u.x\<close> does not occur
  in \<^verbatim>\<open>u@x.com\<close>, and that user is returned.
\<close>

theorem search_users_counterexample:
  "\<not> contains_ci ''u.x'' ''u@x.com''
   \<and> fst (get_users_search env0 (search_request ''u.x'') store0)
       = Reply 200 (JObj [(''success'', JBool True),
           (''users'', JArr [JObj [(''_id'', JOid 2), (''email'', JStr ''u@x.com''),
                                   (''role'', JStr ''user'')]])])"
  by (simp add: contains_ci_def sublist_Cons_right run_simps search_request_def search_store_def get_users_search_def search_users_def
          regex_i_def metachar_def regex_field_def lower_def atom_match_def)

end
